theory Spec2Isabelle
  imports Main "HOL-Library.Sublist"
begin

section \<open>Strings of the Go standard library\<close>

text \<open>
  A Go string is a sequence of bytes, here a \<^typ>\<open>string\<close>. The functions of package
  \<^verbatim>\<open>strings\<close> and the one \<^verbatim>\<open>fmt.Sprintf\<close> format that the record resource uses are
  written out after their documented behaviour.
\<close>

definition HasSuffix :: "string \<Rightarrow> string \<Rightarrow> bool" where
  \<comment> \<open>\<^verbatim>\<open>len(s) >= len(suffix) && s[len(s)-len(suffix):] == suffix\<close>\<close>
  "HasSuffix s suff =
     (length suff \<le> length s \<and> drop (length s - length suff) s = suff)"

definition TrimSuffix :: "string \<Rightarrow> string \<Rightarrow> string" where
  \<comment> \<open>\<^verbatim>\<open>if HasSuffix(s, suffix) { return s[:len(s)-len(suffix)] }; return s\<close>\<close>
  "TrimSuffix s suff =
     (if HasSuffix s suff then take (length s - length suff) s else s)"

fun HasPrefix :: "string \<Rightarrow> string \<Rightarrow> bool" where
  "HasPrefix s [] = True"
| "HasPrefix [] (p # ps) = False"
| "HasPrefix (c # cs) (p # ps) = (c = p \<and> HasPrefix cs ps)"

fun Contains :: "string \<Rightarrow> string \<Rightarrow> bool" where
  \<comment> \<open>\<^verbatim>\<open>strings.Contains(s, substr)\<close>: substr occurs at some offset of s\<close>
  "Contains [] substr = HasPrefix [] substr"
| "Contains (c # cs) substr = (HasPrefix (c # cs) substr \<or> Contains cs substr)"

fun Split :: "string \<Rightarrow> char \<Rightarrow> string list" where
  \<comment> \<open>\<^verbatim>\<open>strings.Split(s, sep)\<close> for a separator of one byte, the only use in the source:
      the pieces between the separators, one more than there are separators\<close>
  "Split [] sep = [[]]"
| "Split (c # cs) sep =
     (if c = sep then [] # Split cs sep
      else (case Split cs sep of
              [] \<Rightarrow> [[c]]
            | piece # pieces \<Rightarrow> (c # piece) # pieces))"

definition Sprintf_s_dot_s :: "string \<Rightarrow> string \<Rightarrow> string" where
  \<comment> \<open>\<^verbatim>\<open>fmt.Sprintf("%s.%s", a, b)\<close>\<close>
  "Sprintf_s_dot_s a b = a @ ''.'' @ b"

section \<open>Names of records\<close>

definition subdomainName :: "string \<Rightarrow> string \<Rightarrow> string" where
  "subdomainName fullName domain = TrimSuffix (TrimSuffix fullName domain) ''.''"

definition recordName :: "string \<Rightarrow> string \<Rightarrow> string" where
  "recordName subdomain domain =
     (if subdomain = [] then domain else Sprintf_s_dot_s subdomain domain)"

section \<open>Data\<close>

text \<open>
  \<^verbatim>\<open>schema.ResourceData\<close> for the schema of \<^verbatim>\<open>resourceCloudFlareRecord\<close>: the identifier
  read by \<^verbatim>\<open>d.Id()\<close> and one field for each key of the schema, with the type the schema
  declares (\<^verbatim>\<open>d.Get(key)\<close> reads the field, \<^verbatim>\<open>d.Set(key, v)\<close> writes it).
\<close>

record ResourceData =
  d_Id :: string
  d_domain :: string
  d_subdomain :: string
  d_name :: string
  d_type :: string
  d_value :: string
  d_ttl :: int
  d_priority :: int
  d_proxied :: bool
  d_zone_id :: string

text \<open>The fields of \<^verbatim>\<open>cloudflare.DNSRecord\<close> that the resource reads or writes.\<close>

record DNSRecord =
  ID :: string
  Type :: string
  Name :: string
  Content :: string
  Proxied :: bool
  TTL :: int
  Priority :: int
  ZoneID :: string
  ZoneName :: string

definition DNSRecord_zero :: DNSRecord where
  \<comment> \<open>the zero value \<^verbatim>\<open>cloudflare.DNSRecord{}\<close>\<close>
  "DNSRecord_zero =
     \<lparr>ID = [], Type = [], Name = [], Content = [], Proxied = False, TTL = 0, Priority = 0,
      ZoneID = [], ZoneName = []\<rparr>"

text \<open>The calls on the remote client, with their arguments, in the order they are made.\<close>

datatype call =
    Call_ZoneIDByName string
  | Call_CreateDNSRecord string DNSRecord
  | Call_DNSRecord string string
  | Call_DNSRecords string DNSRecord
  | Call_UpdateDNSRecord string string DNSRecord
  | Call_DeleteDNSRecord string string

text \<open>
  One constructor for each \<^verbatim>\<open>fmt.Errorf\<close> of the source, carrying the values it formats; an
  error of the client is the text of its \<^verbatim>\<open>Error()\<close>. \<open>ErrClient\<close> is the client's own error,
  returned as it is.
\<close>

datatype error =
    ErrValidatingRecordName string string
  | ErrValidatingRecordType string string
  | ErrFindingZone string string
  | ErrFailedToCreate string
  | ErrRecordWasEmpty
  | ErrClient string
  | ErrFailedToUpdate string
  | ErrDeleting string
  | ErrExpecting string
  | ErrImportFindingZone string string
  | ErrFiltering string
  | ErrExpectedOneRecord nat
  | ErrSettingDomain string
  | ErrImporting string

text \<open>
  What the resource depends on and the source files do not hold, taken as parameters:
  \<^item> the methods of \<^verbatim>\<open>cloudflare.API\<close>. The remote side has state, so each answer depends on
    the calls made before (the first argument) as well as on the arguments of the call; an
    error is \<open>Inl\<close> (or \<open>Some\<close>) of its text;
  \<^item> \<^verbatim>\<open>validateRecordName\<close> and \<^verbatim>\<open>validateRecordType\<close>, with \<open>None\<close> for \<^verbatim>\<open>nil\<close>;
  \<^item> the second result of \<^verbatim>\<open>d.GetOk(key)\<close> (its first is the field, as for \<^verbatim>\<open>d.Get\<close>);
  \<^item> the error of \<^verbatim>\<open>d.Set(key, v)\<close> at the one place where the source looks at it.
\<close>

record Env =
  ZoneIDByName :: "call list \<Rightarrow> string \<Rightarrow> string + string"
  CreateDNSRecord :: "call list \<Rightarrow> string \<Rightarrow> DNSRecord \<Rightarrow> string + DNSRecord"
  DNSRecord :: "call list \<Rightarrow> string \<Rightarrow> string \<Rightarrow> string + DNSRecord"
  DNSRecords :: "call list \<Rightarrow> string \<Rightarrow> DNSRecord \<Rightarrow> string + DNSRecord list"
  UpdateDNSRecord :: "call list \<Rightarrow> string \<Rightarrow> string \<Rightarrow> DNSRecord \<Rightarrow> string option"
  DeleteDNSRecord :: "call list \<Rightarrow> string \<Rightarrow> string \<Rightarrow> string option"
  validateRecordName :: "string \<Rightarrow> string \<Rightarrow> string option"
  validateRecordType :: "string \<Rightarrow> bool \<Rightarrow> string option"
  GetOk :: "ResourceData \<Rightarrow> string \<Rightarrow> bool"
  SetErr :: "ResourceData \<Rightarrow> string \<Rightarrow> string option"

definition recordNotFoundMessage :: string where
  "recordNotFoundMessage = ''Invalid dns record identifier''"

section \<open>The operations of the resource\<close>

text \<open>
  Each operation takes the parameters, the resource data and the calls made so far, and
  returns its result, the resource data as it has left them (the source updates them in
  place, also when it returns an error) and the calls made so far. \<^verbatim>\<open>log.Printf\<close> is left
  out.
\<close>

type_synonym 'a outcome = "'a \<times> ResourceData \<times> call list"

definition result :: "'a outcome \<Rightarrow> 'a" where
  "result out = fst out"

definition resource :: "'a outcome \<Rightarrow> ResourceData" where
  "resource out = fst (snd out)"

definition calls_made :: "'a outcome \<Rightarrow> call list" where
  "calls_made out = snd (snd out)"

definition resourceCloudFlareRecordRead :: "Env \<Rightarrow> ResourceData \<Rightarrow> call list \<Rightarrow> error option outcome" where
  "resourceCloudFlareRecordRead env d calls =
     (let domain = d_domain d in
      case (ZoneIDByName env calls domain, calls @ [Call_ZoneIDByName domain]) of
        (Inl err, calls) \<Rightarrow> (Some (ErrFindingZone domain err), d, calls)
      | (Inr zoneID, calls) \<Rightarrow>
          (case (DNSRecord env calls zoneID (d_Id d), calls @ [Call_DNSRecord zoneID (d_Id d)]) of
             (Inl err, calls) \<Rightarrow>
               if Contains err recordNotFoundMessage then (None, d\<lparr>d_Id := []\<rparr>, calls)
               else (Some (ErrClient err), d, calls)
           | (Inr record, calls) \<Rightarrow>
               (None,
                d\<lparr>d_Id := ID record,
                  d_type := Type record,
                  d_subdomain := subdomainName (Name record) domain,
                  d_value := Content record,
                  d_ttl := TTL record,
                  d_priority := Priority record,
                  d_proxied := Proxied record,
                  d_zone_id := zoneID\<rparr>,
                calls)))"

definition newRecord :: "Env \<Rightarrow> ResourceData \<Rightarrow> DNSRecord" where
  \<comment> \<open>the record that \<^verbatim>\<open>resourceCloudFlareRecordCreate\<close> builds before it validates it\<close>
  "newRecord env d =
     (let subdomain = d_subdomain d;
          domain = d_domain d;
          newRecord = DNSRecord_zero
            \<lparr>Type := d_type d,
             Name := recordName subdomain domain,
             Content := d_value d,
             Proxied := d_proxied d,
             ZoneName := domain\<rparr>;
          newRecord = (if GetOk env d ''priority'' then newRecord\<lparr>Priority := d_priority d\<rparr>
                       else newRecord);
          newRecord = (if GetOk env d ''ttl'' then newRecord\<lparr>TTL := d_ttl d\<rparr> else newRecord)
      in newRecord)"

definition resourceCloudFlareRecordCreate :: "Env \<Rightarrow> ResourceData \<Rightarrow> call list \<Rightarrow> error option outcome" where
  "resourceCloudFlareRecordCreate env d calls =
     (let newRecord = newRecord env d in
      case validateRecordName env (Type newRecord) (Content newRecord) of
        Some err \<Rightarrow> (Some (ErrValidatingRecordName (Name newRecord) err), d, calls)
      | None \<Rightarrow>
     (case validateRecordType env (Type newRecord) (Proxied newRecord) of
        Some err \<Rightarrow> (Some (ErrValidatingRecordType (Type newRecord) err), d, calls)
      | None \<Rightarrow>
     (case (ZoneIDByName env calls (ZoneName newRecord),
            calls @ [Call_ZoneIDByName (ZoneName newRecord)]) of
        (Inl err, calls) \<Rightarrow> (Some (ErrFindingZone (ZoneName newRecord) err), d, calls)
      | (Inr zoneID, calls) \<Rightarrow>
          (let d = d\<lparr>d_zone_id := zoneID\<rparr>;
               newRecord = newRecord\<lparr>ZoneID := zoneID\<rparr>
           in case (CreateDNSRecord env calls zoneID newRecord,
                    calls @ [Call_CreateDNSRecord zoneID newRecord]) of
                (Inl err, calls) \<Rightarrow> (Some (ErrFailedToCreate err), d, calls)
              | (Inr r, calls) \<Rightarrow>
                  if ID r = [] then (Some ErrRecordWasEmpty, d, calls)
                  else resourceCloudFlareRecordRead env (d\<lparr>d_Id := ID r\<rparr>) calls))))"

definition updateRecord :: "Env \<Rightarrow> ResourceData \<Rightarrow> DNSRecord" where
  \<comment> \<open>the record that \<^verbatim>\<open>resourceCloudFlareRecordUpdate\<close> builds before it resolves the zone\<close>
  "updateRecord env d =
     (let subdomain = d_subdomain d;
          domain = d_domain d;
          updateRecord = DNSRecord_zero
            \<lparr>ID := d_Id d,
             Type := d_type d,
             Name := recordName subdomain domain,
             Content := d_value d,
             ZoneName := domain,
             Proxied := False\<rparr>;
          updateRecord = (if GetOk env d ''priority'' then updateRecord\<lparr>Priority := d_priority d\<rparr>
                          else updateRecord);
          updateRecord = (if GetOk env d ''proxied'' then updateRecord\<lparr>Proxied := d_proxied d\<rparr>
                          else updateRecord);
          updateRecord = (if GetOk env d ''ttl'' then updateRecord\<lparr>TTL := d_ttl d\<rparr>
                          else updateRecord)
      in updateRecord)"

definition resourceCloudFlareRecordUpdate :: "Env \<Rightarrow> ResourceData \<Rightarrow> call list \<Rightarrow> error option outcome" where
  "resourceCloudFlareRecordUpdate env d calls =
     (let updateRecord = updateRecord env d in
      case (ZoneIDByName env calls (ZoneName updateRecord),
            calls @ [Call_ZoneIDByName (ZoneName updateRecord)]) of
        (Inl err, calls) \<Rightarrow> (Some (ErrFindingZone (ZoneName updateRecord) err), d, calls)
      | (Inr zoneID, calls) \<Rightarrow>
          (let updateRecord = updateRecord\<lparr>ZoneID := zoneID\<rparr>
           in case (UpdateDNSRecord env calls zoneID (d_Id d) updateRecord,
                    calls @ [Call_UpdateDNSRecord zoneID (d_Id d) updateRecord]) of
                (Some err, calls) \<Rightarrow> (Some (ErrFailedToUpdate err), d, calls)
              | (None, calls) \<Rightarrow> resourceCloudFlareRecordRead env d calls))"

definition resourceCloudFlareRecordDelete :: "Env \<Rightarrow> ResourceData \<Rightarrow> call list \<Rightarrow> error option outcome" where
  "resourceCloudFlareRecordDelete env d calls =
     (let domain = d_domain d in
      case (ZoneIDByName env calls domain, calls @ [Call_ZoneIDByName domain]) of
        (Inl err, calls) \<Rightarrow> (Some (ErrFindingZone domain err), d, calls)
      | (Inr zoneID, calls) \<Rightarrow>
          (case (DeleteDNSRecord env calls zoneID (d_Id d),
                 calls @ [Call_DeleteDNSRecord zoneID (d_Id d)]) of
             (None, calls) \<Rightarrow> (None, d, calls)
           | (Some err, calls) \<Rightarrow>
               if Contains err recordNotFoundMessage then (None, d, calls)
               else (Some (ErrDeleting err), d, calls)))"

definition importRecord :: "Env \<Rightarrow> ResourceData \<Rightarrow> call list \<Rightarrow> (error + ResourceData list) outcome" where
  \<comment> \<open>the result is \<open>Inl\<close> of the error, or \<open>Inr\<close> of the list returned with \<^verbatim>\<open>nil\<close>\<close>
  "importRecord env d calls =
     (let tokens = Split (d_Id d) CHR ''|'' in
      if length tokens \<noteq> 3 then (Inl (ErrExpecting (d_Id d)), d, calls)
      else
        let subdomain = tokens ! 0; domain = tokens ! 1; recordType = tokens ! 2 in
        case (ZoneIDByName env calls domain, calls @ [Call_ZoneIDByName domain]) of
          (Inl err, calls) \<Rightarrow> (Inl (ErrImportFindingZone domain err), d, calls)
        | (Inr zoneID, calls) \<Rightarrow>
            (let filter = DNSRecord_zero
                   \<lparr>Name := Sprintf_s_dot_s subdomain domain, Type := recordType\<rparr>
             in case (DNSRecords env calls zoneID filter,
                      calls @ [Call_DNSRecords zoneID filter]) of
                  (Inl err, calls) \<Rightarrow> (Inl (ErrFiltering err), d, calls)
                | (Inr records, calls) \<Rightarrow>
                    if length records \<noteq> 1
                    then (Inl (ErrExpectedOneRecord (length records)), d, calls)
                    else
                      let d = d\<lparr>d_Id := ID (records ! 0)\<rparr> in
                      (case SetErr env d ''domain'' of
                         Some err \<Rightarrow> (Inl (ErrSettingDomain err), d, calls)
                       | None \<Rightarrow>
                           (case resourceCloudFlareRecordRead env (d\<lparr>d_domain := domain\<rparr>) calls of
                              (err, d, calls) \<Rightarrow>
                                (if err \<noteq> None then Inl (ErrImporting (ID (records ! 0)))
                                 else Inr [d],
                                 d, calls)))))"

section \<open>A remote zone to run the operations on\<close>

text \<open>
  One zone, \<^verbatim>\<open>example.com\<close>, with a record for \<^verbatim>\<open>www\<close>, a record at the apex and two
  records that share the name \<^verbatim>\<open>rr\<close>. The answers of this remote side do not depend on the
  calls made before. \<open>GetOk\<close> reports a field that is not the zero value of its type.
\<close>

definition example_record :: DNSRecord where
  "example_record =
     \<lparr>ID = ''rec1'', Type = ''A'', Name = ''www.example.com'', Content = ''198.51.100.4'',
      Proxied = False, TTL = 120, Priority = 0, ZoneID = ''zone1'', ZoneName = ''example.com''\<rparr>"

definition example_records :: "DNSRecord list" where
  "example_records =
     [example_record,
      example_record\<lparr>ID := ''rec2'', Name := ''example.com'', Content := ''198.51.100.5''\<rparr>,
      example_record\<lparr>ID := ''rec3'', Name := ''rr.example.com'', Content := ''198.51.100.6''\<rparr>,
      example_record\<lparr>ID := ''rec4'', Name := ''rr.example.com'', Content := ''198.51.100.7''\<rparr>]"

definition example_env :: Env where
  "example_env =
     \<lparr>ZoneIDByName = (\<lambda>calls zoneName.
        if zoneName = ''example.com'' then Inr ''zone1'' else Inl ''Zone could not be found''),
      CreateDNSRecord = (\<lambda>calls zoneID rr. Inr (rr\<lparr>ID := ''rec1''\<rparr>)),
      DNSRecord = (\<lambda>calls zoneID recordID.
        case find (\<lambda>rr. ID rr = recordID) example_records of
          Some rr \<Rightarrow> Inr rr
        | None \<Rightarrow> Inl ''HTTP status 400: Invalid dns record identifier''),
      DNSRecords = (\<lambda>calls zoneID rr.
        Inr (filter (\<lambda>rr'. Name rr' = Name rr \<and> Type rr' = Type rr) example_records)),
      UpdateDNSRecord = (\<lambda>calls zoneID recordID rr. None),
      DeleteDNSRecord = (\<lambda>calls zoneID recordID.
        case find (\<lambda>rr. ID rr = recordID) example_records of
          Some rr \<Rightarrow> None
        | None \<Rightarrow> Some ''HTTP status 400: Invalid dns record identifier''),
      validateRecordName = (\<lambda>recordType content.
        if content = [] then Some ''value is empty'' else None),
      validateRecordType = (\<lambda>recordType proxied.
        if recordType = ''TXT'' \<and> proxied then Some ''type TXT cannot be proxied'' else None),
      GetOk = (\<lambda>d key.
        if key = ''priority'' then d_priority d \<noteq> 0
        else if key = ''ttl'' then d_ttl d \<noteq> 0
        else if key = ''proxied'' then d_proxied d
        else False),
      SetErr = (\<lambda>d key. None)\<rparr>"

definition example_data :: ResourceData where
  \<comment> \<open>a configuration for the record of \<^verbatim>\<open>www\<close>, not yet created\<close>
  "example_data =
     \<lparr>d_Id = [], d_domain = ''example.com'', d_subdomain = ''www'', d_name = [], d_type = ''A'',
      d_value = ''198.51.100.4'', d_ttl = 120, d_priority = 0, d_proxied = False,
      d_zone_id = []\<rparr>"

definition import_data :: "string \<Rightarrow> ResourceData" where
  \<comment> \<open>the resource data handed to the importer: the identifier and nothing else\<close>
  "import_data ident =
     \<lparr>d_Id = ident, d_domain = [], d_subdomain = [], d_name = [], d_type = [], d_value = [],
      d_ttl = 0, d_priority = 0, d_proxied = False, d_zone_id = []\<rparr>"

definition server_error :: string where
  "server_error = ''HTTP status 500: internal error''"

section \<open>Properties\<close>

subsection \<open>The functions on strings\<close>

lemma TrimSuffix_append: "TrimSuffix (s @ suff) suff = s"
  by (simp add: TrimSuffix_def HasSuffix_def)

lemma HasPrefix_prefix: "HasPrefix s p = prefix p s"
  by (induction s p rule: HasPrefix.induct) auto

lemma Contains_sublist: "Contains s substr = sublist substr s"
  by (induction s) (auto simp add: HasPrefix_prefix sublist_Cons_right)

lemma length_Split: "length (Split s sep) = Suc (count_list s sep)"
  by (induction s) (auto split: list.splits)

subsection \<open>The records built and the calls made\<close>

lemma newRecord_fields:
  "Type (newRecord env d) = d_type d"
  "Content (newRecord env d) = d_value d"
  "Proxied (newRecord env d) = d_proxied d"
  "Name (newRecord env d) = recordName (d_subdomain d) (d_domain d)"
  "ZoneName (newRecord env d) = d_domain d"
  by (simp_all add: newRecord_def Let_def)

lemma updateRecord_fields:
  "Proxied (updateRecord env d) = (if GetOk env d ''proxied'' then d_proxied d else False)"
  "ZoneName (updateRecord env d) = d_domain d"
  by (simp_all add: updateRecord_def Let_def)

lemma Read_calls: "prefix calls (calls_made (resourceCloudFlareRecordRead env d calls))"
  by (simp add: resourceCloudFlareRecordRead_def calls_made_def Let_def split: sum.splits)

lemma prefix_Read:
  "prefix xs calls \<Longrightarrow> prefix xs (calls_made (resourceCloudFlareRecordRead env d calls))"
  using Read_calls prefix_order.trans by blast

lemma calls_made_case:
  "calls_made (case out of (err, d, calls) \<Rightarrow> (f err d, d, calls)) = calls_made out"
  by (simp add: calls_made_def case_prod_unfold)

lemma Read_domain:
  "d_domain (resource (resourceCloudFlareRecordRead env d calls)) = d_domain d"
  by (simp add: resourceCloudFlareRecordRead_def resource_def Let_def split: sum.splits)

lemmas run_defs =
  resourceCloudFlareRecordCreate_def resourceCloudFlareRecordRead_def
  resourceCloudFlareRecordUpdate_def resourceCloudFlareRecordDelete_def importRecord_def
  newRecord_def updateRecord_def recordName_def subdomainName_def TrimSuffix_def HasSuffix_def
  Sprintf_s_dot_s_def DNSRecord_zero_def recordNotFoundMessage_def
  result_def resource_def calls_made_def Let_def
  example_env_def example_data_def example_record_def example_records_def import_data_def
  server_error_def

subsection \<open>Names\<close>

text \<open>
  C1. For every non-empty subdomain s and every domain d, the name composed by
  \<open>recordName\<close> is s, a dot and d, and \<open>subdomainName\<close> recovers s from it exactly; for the
  empty subdomain the composed name is d alone.
\<close>

theorem subdomainName_recordName:
  assumes "s \<noteq> []"
  shows "recordName s d = s @ ''.'' @ d \<and> recordName [] d = d
         \<and> subdomainName (recordName s d) d = s"
proof -
  have name: "recordName s d = s @ ''.'' @ d"
    using assms by (simp add: recordName_def Sprintf_s_dot_s_def)
  have "TrimSuffix ((s @ ''.'') @ d) d = s @ ''.''"
    by (rule TrimSuffix_append)
  then have "subdomainName (recordName s d) d = s"
    by (simp add: name subdomainName_def TrimSuffix_append)
  moreover have "recordName [] d = d"
    by (simp add: recordName_def)
  ultimately show ?thesis
    using name by simp
qed

theorem subdomainName_recordName_witness:
  "''www'' \<noteq> [] \<and> recordName ''www'' ''example.com'' = ''www.example.com''
   \<and> subdomainName (recordName ''www'' ''example.com'') ''example.com'' = ''www''"
proof -
  have nonempty: "''www'' \<noteq> []"
    by simp
  from subdomainName_recordName [OF nonempty, of "''example.com''"] nonempty
  show ?thesis
    by auto
qed

subsection \<open>The proxied flag\<close>

text \<open>
  C2. Create copies the stored proxied flag into the record it sends. Update starts from
  false and copies the stored flag only when \<open>GetOk\<close> reports the field as present. The
  records sent to the remote side are the ones so built, with the zone identifier filled in.
\<close>

theorem Create_Update_proxied:
  "Proxied (newRecord env d) = d_proxied d
   \<and> Proxied (updateRecord env d) = (if GetOk env d ''proxied'' then d_proxied d else False)
   \<and> (validateRecordName env (d_type d) (d_value d) = None
        \<and> validateRecordType env (d_type d) (d_proxied d) = None
        \<and> ZoneIDByName env calls (d_domain d) = Inr zoneID
      \<longrightarrow> prefix (calls @ [Call_ZoneIDByName (d_domain d),
                Call_CreateDNSRecord zoneID (newRecord env d\<lparr>ZoneID := zoneID\<rparr>)])
            (calls_made (resourceCloudFlareRecordCreate env d calls)))
   \<and> (ZoneIDByName env calls (d_domain d) = Inr zoneID
      \<longrightarrow> prefix (calls @ [Call_ZoneIDByName (d_domain d),
                Call_UpdateDNSRecord zoneID (d_Id d) (updateRecord env d\<lparr>ZoneID := zoneID\<rparr>)])
            (calls_made (resourceCloudFlareRecordUpdate env d calls)))"
proof (intro conjI impI)
  show "Proxied (newRecord env d) = d_proxied d"
    by (rule newRecord_fields)
  show "Proxied (updateRecord env d) = (if GetOk env d ''proxied'' then d_proxied d else False)"
    by (rule updateRecord_fields)
next
  assume "validateRecordName env (d_type d) (d_value d) = None
        \<and> validateRecordType env (d_type d) (d_proxied d) = None
        \<and> ZoneIDByName env calls (d_domain d) = Inr zoneID"
  then show "prefix (calls @ [Call_ZoneIDByName (d_domain d),
                Call_CreateDNSRecord zoneID (newRecord env d\<lparr>ZoneID := zoneID\<rparr>)])
            (calls_made (resourceCloudFlareRecordCreate env d calls))"
    by (auto simp add: resourceCloudFlareRecordCreate_def newRecord_fields Let_def
        intro!: prefix_Read split: sum.splits) (simp_all add: calls_made_def)
next
  assume "ZoneIDByName env calls (d_domain d) = Inr zoneID"
  then show "prefix (calls @ [Call_ZoneIDByName (d_domain d),
                Call_UpdateDNSRecord zoneID (d_Id d) (updateRecord env d\<lparr>ZoneID := zoneID\<rparr>)])
            (calls_made (resourceCloudFlareRecordUpdate env d calls))"
    by (auto simp add: resourceCloudFlareRecordUpdate_def updateRecord_fields Let_def
        intro!: prefix_Read split: option.splits) (simp_all add: calls_made_def)
qed

theorem Create_Update_proxied_witness:
  "validateRecordName example_env ''A'' ''198.51.100.4'' = None
   \<and> validateRecordType example_env ''A'' True = None
   \<and> ZoneIDByName example_env [] ''example.com'' = Inr ''zone1''
   \<and> prefix [Call_ZoneIDByName ''example.com'',
        Call_CreateDNSRecord ''zone1'' (example_record\<lparr>ID := [], Proxied := True\<rparr>)]
       (calls_made (resourceCloudFlareRecordCreate example_env
          (example_data\<lparr>d_proxied := True\<rparr>) []))
   \<and> prefix [Call_ZoneIDByName ''example.com'',
        Call_UpdateDNSRecord ''zone1'' ''rec1'' (example_record\<lparr>Proxied := True\<rparr>)]
       (calls_made (resourceCloudFlareRecordUpdate example_env
          (example_data\<lparr>d_Id := ''rec1'', d_proxied := True\<rparr>) []))"
  using Create_Update_proxied [of example_env "example_data\<lparr>d_proxied := True\<rparr>" "[]" "''zone1''"]
    Create_Update_proxied [of example_env "example_data\<lparr>d_Id := ''rec1'', d_proxied := True\<rparr>"
      "[]" "''zone1''"]
  by (simp add: run_defs)

subsection \<open>Records that are gone\<close>

text \<open>
  C3. When the zone is resolved and the remote delete returns an error, Delete succeeds if
  the text of the error contains \<open>recordNotFoundMessage\<close>; for any other error it returns
  an error and leaves the resource data, the identifier with them, as they were.
\<close>

theorem Delete_not_found:
  assumes "ZoneIDByName env calls (d_domain d) = Inr zoneID"
    and "DeleteDNSRecord env (calls @ [Call_ZoneIDByName (d_domain d)]) zoneID (d_Id d) = Some err"
  shows "(Contains err recordNotFoundMessage \<longrightarrow>
            result (resourceCloudFlareRecordDelete env d calls) = None)
       \<and> (\<not> Contains err recordNotFoundMessage \<longrightarrow>
            result (resourceCloudFlareRecordDelete env d calls) = Some (ErrDeleting err)
            \<and> resource (resourceCloudFlareRecordDelete env d calls) = d)"
  using assms
  by (simp add: resourceCloudFlareRecordDelete_def result_def resource_def)

theorem Delete_not_found_witness:
  "ZoneIDByName example_env [] ''example.com'' = Inr ''zone1''
   \<and> DeleteDNSRecord example_env [Call_ZoneIDByName ''example.com''] ''zone1'' ''gone''
       = Some ''HTTP status 400: Invalid dns record identifier''
   \<and> Contains ''HTTP status 400: Invalid dns record identifier'' recordNotFoundMessage
   \<and> result (resourceCloudFlareRecordDelete example_env (example_data\<lparr>d_Id := ''gone''\<rparr>) [])
       = None
   \<and> DeleteDNSRecord
         (example_env\<lparr>DeleteDNSRecord := \<lambda>calls zoneID recordID. Some server_error\<rparr>)
         [Call_ZoneIDByName ''example.com''] ''zone1'' ''rec1''
       = Some server_error
   \<and> \<not> Contains server_error recordNotFoundMessage
   \<and> result (resourceCloudFlareRecordDelete
         (example_env\<lparr>DeleteDNSRecord := \<lambda>calls zoneID recordID. Some server_error\<rparr>)
         (example_data\<lparr>d_Id := ''rec1''\<rparr>) [])
       = Some (ErrDeleting server_error)
   \<and> resource (resourceCloudFlareRecordDelete
         (example_env\<lparr>DeleteDNSRecord := \<lambda>calls zoneID recordID. Some server_error\<rparr>)
         (example_data\<lparr>d_Id := ''rec1''\<rparr>) [])
       = example_data\<lparr>d_Id := ''rec1''\<rparr>"
  using Delete_not_found [of example_env "[]" "example_data\<lparr>d_Id := ''gone''\<rparr>" "''zone1''"
      "''HTTP status 400: Invalid dns record identifier''"]
    Delete_not_found [of
      "example_env\<lparr>DeleteDNSRecord := \<lambda>calls zoneID recordID. Some server_error\<rparr>" "[]"
      "example_data\<lparr>d_Id := ''rec1''\<rparr>" "''zone1''" server_error]
  by (simp add: run_defs)

text \<open>
  C4. When the zone is resolved and the fetch of the record by its identifier fails, Read
  clears the identifier and succeeds if the text of the error contains
  \<open>recordNotFoundMessage\<close>; for any other error it returns that error.
\<close>

theorem Read_not_found:
  assumes "ZoneIDByName env calls (d_domain d) = Inr zoneID"
    and "DNSRecord env (calls @ [Call_ZoneIDByName (d_domain d)]) zoneID (d_Id d) = Inl err"
  shows "(Contains err recordNotFoundMessage \<longrightarrow>
            result (resourceCloudFlareRecordRead env d calls) = None
            \<and> resource (resourceCloudFlareRecordRead env d calls) = d\<lparr>d_Id := []\<rparr>)
       \<and> (\<not> Contains err recordNotFoundMessage \<longrightarrow>
            result (resourceCloudFlareRecordRead env d calls) = Some (ErrClient err))"
  using assms
  by (simp add: resourceCloudFlareRecordRead_def result_def resource_def)

theorem Read_not_found_witness:
  "ZoneIDByName example_env [] ''example.com'' = Inr ''zone1''
   \<and> DNSRecord example_env [Call_ZoneIDByName ''example.com''] ''zone1'' ''gone''
       = Inl ''HTTP status 400: Invalid dns record identifier''
   \<and> Contains ''HTTP status 400: Invalid dns record identifier'' recordNotFoundMessage
   \<and> result (resourceCloudFlareRecordRead example_env (example_data\<lparr>d_Id := ''gone''\<rparr>) [])
       = None
   \<and> resource (resourceCloudFlareRecordRead example_env (example_data\<lparr>d_Id := ''gone''\<rparr>) [])
       = example_data\<lparr>d_Id := []\<rparr>
   \<and> DNSRecord (example_env\<lparr>DNSRecord := \<lambda>calls zoneID recordID. Inl server_error\<rparr>)
         [Call_ZoneIDByName ''example.com''] ''zone1'' ''rec1''
       = Inl server_error
   \<and> \<not> Contains server_error recordNotFoundMessage
   \<and> result (resourceCloudFlareRecordRead
         (example_env\<lparr>DNSRecord := \<lambda>calls zoneID recordID. Inl server_error\<rparr>)
         (example_data\<lparr>d_Id := ''rec1''\<rparr>) [])
       = Some (ErrClient server_error)"
  using Read_not_found [of example_env "[]" "example_data\<lparr>d_Id := ''gone''\<rparr>" "''zone1''"
      "''HTTP status 400: Invalid dns record identifier''"]
    Read_not_found [of "example_env\<lparr>DNSRecord := \<lambda>calls zoneID recordID. Inl server_error\<rparr>"
      "[]" "example_data\<lparr>d_Id := ''rec1''\<rparr>" "''zone1''" server_error]
  by (simp add: run_defs)

subsection \<open>Create\<close>

text \<open>
  C5. When the validations pass, the zone is resolved and the remote create succeeds with a
  record whose identifier is empty, Create returns an error: it does not set the identifier
  and makes no further call.
\<close>

theorem Create_empty_identifier:
  assumes "validateRecordName env (d_type d) (d_value d) = None"
    and "validateRecordType env (d_type d) (d_proxied d) = None"
    and "ZoneIDByName env calls (d_domain d) = Inr zoneID"
    and "CreateDNSRecord env (calls @ [Call_ZoneIDByName (d_domain d)]) zoneID
           (newRecord env d\<lparr>ZoneID := zoneID\<rparr>) = Inr r"
    and "ID r = []"
  shows "result (resourceCloudFlareRecordCreate env d calls) = Some ErrRecordWasEmpty
       \<and> d_Id (resource (resourceCloudFlareRecordCreate env d calls)) = d_Id d
       \<and> calls_made (resourceCloudFlareRecordCreate env d calls) =
           calls @ [Call_ZoneIDByName (d_domain d),
                    Call_CreateDNSRecord zoneID (newRecord env d\<lparr>ZoneID := zoneID\<rparr>)]"
  using assms
  by (simp add: resourceCloudFlareRecordCreate_def newRecord_fields result_def resource_def
      calls_made_def Let_def)

theorem Create_empty_identifier_witness:
  "validateRecordName example_env ''A'' ''198.51.100.4'' = None
   \<and> validateRecordType example_env ''A'' False = None
   \<and> ZoneIDByName example_env [] ''example.com'' = Inr ''zone1''
   \<and> CreateDNSRecord (example_env\<lparr>CreateDNSRecord := \<lambda>calls zoneID rr. Inr DNSRecord_zero\<rparr>)
         [Call_ZoneIDByName ''example.com''] ''zone1'' (example_record\<lparr>ID := []\<rparr>)
       = Inr DNSRecord_zero
   \<and> ID DNSRecord_zero = []
   \<and> resourceCloudFlareRecordCreate
         (example_env\<lparr>CreateDNSRecord := \<lambda>calls zoneID rr. Inr DNSRecord_zero\<rparr>)
         example_data []
       = (Some ErrRecordWasEmpty, example_data\<lparr>d_zone_id := ''zone1''\<rparr>,
          [Call_ZoneIDByName ''example.com'',
           Call_CreateDNSRecord ''zone1'' (example_record\<lparr>ID := []\<rparr>)])"
  using Create_empty_identifier [of
      "example_env\<lparr>CreateDNSRecord := \<lambda>calls zoneID rr. Inr DNSRecord_zero\<rparr>" example_data "[]"
      "''zone1''" DNSRecord_zero]
  by (simp add: run_defs)

text \<open>
  C9, as the code has it. Create builds the record, validates its content, then its type
  against the proxied flag, and only then resolves the zone and calls the remote create: a
  failed validation returns before any call on the remote side, a zone that cannot be found
  returns after that one call, and otherwise the second call is the remote create, with the
  record built and the zone identifier filled in.
\<close>

theorem Create_order:
  "(validateRecordName env (d_type d) (d_value d) = Some err \<longrightarrow>
      resourceCloudFlareRecordCreate env d calls =
        (Some (ErrValidatingRecordName (recordName (d_subdomain d) (d_domain d)) err), d, calls))
   \<and> (validateRecordName env (d_type d) (d_value d) = None
        \<and> validateRecordType env (d_type d) (d_proxied d) = Some err \<longrightarrow>
      resourceCloudFlareRecordCreate env d calls =
        (Some (ErrValidatingRecordType (d_type d) err), d, calls))
   \<and> (validateRecordName env (d_type d) (d_value d) = None
        \<and> validateRecordType env (d_type d) (d_proxied d) = None
        \<and> ZoneIDByName env calls (d_domain d) = Inl err \<longrightarrow>
      resourceCloudFlareRecordCreate env d calls =
        (Some (ErrFindingZone (d_domain d) err), d, calls @ [Call_ZoneIDByName (d_domain d)]))
   \<and> (validateRecordName env (d_type d) (d_value d) = None
        \<and> validateRecordType env (d_type d) (d_proxied d) = None
        \<and> ZoneIDByName env calls (d_domain d) = Inr zoneID \<longrightarrow>
      prefix (calls @ [Call_ZoneIDByName (d_domain d),
                Call_CreateDNSRecord zoneID (newRecord env d\<lparr>ZoneID := zoneID\<rparr>)])
        (calls_made (resourceCloudFlareRecordCreate env d calls)))"
proof (intro conjI impI)
  assume "validateRecordName env (d_type d) (d_value d) = Some err"
  then show "resourceCloudFlareRecordCreate env d calls =
        (Some (ErrValidatingRecordName (recordName (d_subdomain d) (d_domain d)) err), d, calls)"
    by (simp add: resourceCloudFlareRecordCreate_def newRecord_fields Let_def)
next
  assume "validateRecordName env (d_type d) (d_value d) = None
        \<and> validateRecordType env (d_type d) (d_proxied d) = Some err"
  then show "resourceCloudFlareRecordCreate env d calls =
        (Some (ErrValidatingRecordType (d_type d) err), d, calls)"
    by (simp add: resourceCloudFlareRecordCreate_def newRecord_fields Let_def)
next
  assume "validateRecordName env (d_type d) (d_value d) = None
        \<and> validateRecordType env (d_type d) (d_proxied d) = None
        \<and> ZoneIDByName env calls (d_domain d) = Inl err"
  then show "resourceCloudFlareRecordCreate env d calls =
        (Some (ErrFindingZone (d_domain d) err), d, calls @ [Call_ZoneIDByName (d_domain d)])"
    by (simp add: resourceCloudFlareRecordCreate_def newRecord_fields Let_def)
next
  assume "validateRecordName env (d_type d) (d_value d) = None
        \<and> validateRecordType env (d_type d) (d_proxied d) = None
        \<and> ZoneIDByName env calls (d_domain d) = Inr zoneID"
  then show "prefix (calls @ [Call_ZoneIDByName (d_domain d),
                Call_CreateDNSRecord zoneID (newRecord env d\<lparr>ZoneID := zoneID\<rparr>)])
        (calls_made (resourceCloudFlareRecordCreate env d calls))"
    by (auto simp add: resourceCloudFlareRecordCreate_def newRecord_fields Let_def
        intro!: prefix_Read split: sum.splits) (simp_all add: calls_made_def)
qed

theorem Create_order_witness:
  "validateRecordName example_env ''A'' [] = Some ''value is empty''
   \<and> resourceCloudFlareRecordCreate example_env (example_data\<lparr>d_value := []\<rparr>) []
       = (Some (ErrValidatingRecordName ''www.example.com'' ''value is empty''),
          example_data\<lparr>d_value := []\<rparr>, [])
   \<and> validateRecordName example_env ''TXT'' ''198.51.100.4'' = None
   \<and> validateRecordType example_env ''TXT'' True = Some ''type TXT cannot be proxied''
   \<and> resourceCloudFlareRecordCreate example_env
         (example_data\<lparr>d_type := ''TXT'', d_proxied := True\<rparr>) []
       = (Some (ErrValidatingRecordType ''TXT'' ''type TXT cannot be proxied''),
          example_data\<lparr>d_type := ''TXT'', d_proxied := True\<rparr>, [])
   \<and> validateRecordName example_env ''A'' ''198.51.100.4'' = None
   \<and> validateRecordType example_env ''A'' False = None
   \<and> ZoneIDByName example_env [] ''example.org'' = Inl ''Zone could not be found''
   \<and> resourceCloudFlareRecordCreate example_env (example_data\<lparr>d_domain := ''example.org''\<rparr>) []
       = (Some (ErrFindingZone ''example.org'' ''Zone could not be found''),
          example_data\<lparr>d_domain := ''example.org''\<rparr>, [Call_ZoneIDByName ''example.org''])
   \<and> ZoneIDByName example_env [] ''example.com'' = Inr ''zone1''
   \<and> prefix [Call_ZoneIDByName ''example.com'',
        Call_CreateDNSRecord ''zone1'' (example_record\<lparr>ID := []\<rparr>)]
       (calls_made (resourceCloudFlareRecordCreate example_env example_data []))"
  using Create_order [of example_env "example_data\<lparr>d_value := []\<rparr>" "''value is empty''" "[]"]
    Create_order [of example_env "example_data\<lparr>d_type := ''TXT'', d_proxied := True\<rparr>"
      "''type TXT cannot be proxied''" "[]"]
    Create_order [of example_env "example_data\<lparr>d_domain := ''example.org''\<rparr>"
      "''Zone could not be found''" "[]"]
    Create_order [of example_env example_data _ "[]" "''zone1''"]
  by (simp add: run_defs)

text \<open>
  C9, as the specification has it, fails: for a configuration whose value is not valid and
  whose zone does not exist, Create reports the value and has not asked for the zone.
\<close>

theorem Create_zone_first_counterexample:
  "validateRecordName example_env ''A'' [] = Some ''value is empty''
   \<and> ZoneIDByName example_env [] ''example.org'' = Inl ''Zone could not be found''
   \<and> resourceCloudFlareRecordCreate example_env
         (example_data\<lparr>d_domain := ''example.org'', d_value := []\<rparr>) []
       = (Some (ErrValidatingRecordName ''www.example.org'' ''value is empty''),
          example_data\<lparr>d_domain := ''example.org'', d_value := []\<rparr>, [])"
  by (simp add: run_defs)

text \<open>
  C10. When the validations pass, the zone is resolved and the remote create fails, Create
  returns the error with the zone identifier already written to the resource data and the
  identifier as it was.
\<close>

theorem Create_failure_keeps_zone_id:
  assumes "validateRecordName env (d_type d) (d_value d) = None"
    and "validateRecordType env (d_type d) (d_proxied d) = None"
    and "ZoneIDByName env calls (d_domain d) = Inr zoneID"
    and "CreateDNSRecord env (calls @ [Call_ZoneIDByName (d_domain d)]) zoneID
           (newRecord env d\<lparr>ZoneID := zoneID\<rparr>) = Inl err"
  shows "result (resourceCloudFlareRecordCreate env d calls) = Some (ErrFailedToCreate err)
       \<and> d_zone_id (resource (resourceCloudFlareRecordCreate env d calls)) = zoneID
       \<and> d_Id (resource (resourceCloudFlareRecordCreate env d calls)) = d_Id d"
  using assms
  by (simp add: resourceCloudFlareRecordCreate_def newRecord_fields result_def resource_def
      Let_def)

theorem Create_failure_keeps_zone_id_witness:
  "validateRecordName example_env ''A'' ''198.51.100.4'' = None
   \<and> validateRecordType example_env ''A'' False = None
   \<and> ZoneIDByName example_env [] ''example.com'' = Inr ''zone1''
   \<and> CreateDNSRecord (example_env\<lparr>CreateDNSRecord := \<lambda>calls zoneID rr. Inl server_error\<rparr>)
         [Call_ZoneIDByName ''example.com''] ''zone1'' (example_record\<lparr>ID := []\<rparr>)
       = Inl server_error
   \<and> d_Id example_data = [] \<and> d_zone_id example_data = []
   \<and> resourceCloudFlareRecordCreate
         (example_env\<lparr>CreateDNSRecord := \<lambda>calls zoneID rr. Inl server_error\<rparr>) example_data []
       = (Some (ErrFailedToCreate server_error), example_data\<lparr>d_zone_id := ''zone1''\<rparr>,
          [Call_ZoneIDByName ''example.com'',
           Call_CreateDNSRecord ''zone1'' (example_record\<lparr>ID := []\<rparr>)])"
  using Create_failure_keeps_zone_id [of
      "example_env\<lparr>CreateDNSRecord := \<lambda>calls zoneID rr. Inl server_error\<rparr>" example_data "[]"
      "''zone1''" server_error]
  by (simp add: run_defs)

subsection \<open>Import\<close>

text \<open>
  C6. When the identifier does not split at \<^verbatim>\<open>|\<close> into exactly three tokens, Import returns
  an error, with the resource data untouched and no call made. With three tokens it goes on:
  the zone it resolves is the one of the second token, and the records it then asks for are
  those whose name is the first token, a dot and the second, and whose type is the third.
\<close>

theorem importRecord_tokens:
  "(length (Split (d_Id d) CHR ''|'') \<noteq> 3 \<longrightarrow>
      importRecord env d calls = (Inl (ErrExpecting (d_Id d)), d, calls))
   \<and> (Split (d_Id d) CHR ''|'' = [subdomain, domain, recordType] \<longrightarrow>
        result (importRecord env d calls) \<noteq> Inl (ErrExpecting (d_Id d))
        \<and> prefix (calls @ [Call_ZoneIDByName domain]) (calls_made (importRecord env d calls))
        \<and> (ZoneIDByName env calls domain = Inr zoneID \<longrightarrow>
             prefix (calls @ [Call_ZoneIDByName domain,
                       Call_DNSRecords zoneID
                         (DNSRecord_zero\<lparr>Name := subdomain @ ''.'' @ domain,
                                          Type := recordType\<rparr>)])
               (calls_made (importRecord env d calls))))"
proof (intro conjI impI)
  assume "length (Split (d_Id d) CHR ''|'') \<noteq> 3"
  then show "importRecord env d calls = (Inl (ErrExpecting (d_Id d)), d, calls)"
    by (simp add: importRecord_def)
next
  assume tokens: "Split (d_Id d) CHR ''|'' = [subdomain, domain, recordType]"
  show "result (importRecord env d calls) \<noteq> Inl (ErrExpecting (d_Id d))"
    by (simp add: importRecord_def tokens result_def Let_def case_prod_unfold
        split: sum.splits option.splits)
  show "prefix (calls @ [Call_ZoneIDByName domain]) (calls_made (importRecord env d calls))"
    by (auto simp add: importRecord_def tokens Let_def Sprintf_s_dot_s_def calls_made_case
        intro!: prefix_Read split: sum.splits option.splits)
       (simp_all add: calls_made_def)
  assume "ZoneIDByName env calls domain = Inr zoneID"
  then show "prefix (calls @ [Call_ZoneIDByName domain,
                       Call_DNSRecords zoneID
                         (DNSRecord_zero\<lparr>Name := subdomain @ ''.'' @ domain,
                                          Type := recordType\<rparr>)])
               (calls_made (importRecord env d calls))"
    by (auto simp add: importRecord_def tokens Let_def Sprintf_s_dot_s_def calls_made_case
        intro!: prefix_Read split: sum.splits option.splits)
       (simp_all add: calls_made_def)
qed

theorem importRecord_tokens_witness:
  "length (Split ''a|b'' CHR ''|'') \<noteq> 3
   \<and> importRecord example_env (import_data ''a|b'') []
       = (Inl (ErrExpecting ''a|b''), import_data ''a|b'', [])
   \<and> length (Split ''a|b|c|d'' CHR ''|'') \<noteq> 3
   \<and> importRecord example_env (import_data ''a|b|c|d'') []
       = (Inl (ErrExpecting ''a|b|c|d''), import_data ''a|b|c|d'', [])
   \<and> Split ''www|example.com|A'' CHR ''|'' = [''www'', ''example.com'', ''A'']
   \<and> ZoneIDByName example_env [] ''example.com'' = Inr ''zone1''
   \<and> prefix [Call_ZoneIDByName ''example.com'',
        Call_DNSRecords ''zone1'' (DNSRecord_zero\<lparr>Name := ''www.example.com'', Type := ''A''\<rparr>)]
       (calls_made (importRecord example_env (import_data ''www|example.com|A'') []))"
  using importRecord_tokens [of "import_data ''a|b''" example_env "[]"]
    importRecord_tokens [of "import_data ''a|b|c|d''" example_env "[]"]
    importRecord_tokens [of "import_data ''www|example.com|A''" example_env "[]"
      "''www''" "''example.com''" "''A''" "''zone1''"]
  by (simp add: run_defs)

text \<open>
  C7. When the identifier has three tokens, the zone is resolved and the lookup of the
  records succeeds, Import returns an error and leaves the resource data untouched unless
  exactly one record matches. With one match (and the write of the domain accepted) it is
  Read, run on the resource data with the identifier of that record and the domain of the
  second token, that fills in the rest; the domain stays the one of the second token.
\<close>

theorem importRecord_matches:
  assumes "Split (d_Id d) CHR ''|'' = [subdomain, domain, recordType]"
    and "ZoneIDByName env calls domain = Inr zoneID"
    and "DNSRecords env (calls @ [Call_ZoneIDByName domain]) zoneID
           (DNSRecord_zero\<lparr>Name := subdomain @ ''.'' @ domain, Type := recordType\<rparr>)
         = Inr records"
  shows "(length records \<noteq> 1 \<longrightarrow>
            result (importRecord env d calls) = Inl (ErrExpectedOneRecord (length records))
            \<and> resource (importRecord env d calls) = d)
       \<and> (records = [r] \<and> SetErr env (d\<lparr>d_Id := ID r\<rparr>) ''domain'' = None \<longrightarrow>
            importRecord env d calls =
              (case resourceCloudFlareRecordRead env (d\<lparr>d_Id := ID r, d_domain := domain\<rparr>)
                      (calls @ [Call_ZoneIDByName domain,
                         Call_DNSRecords zoneID
                           (DNSRecord_zero\<lparr>Name := subdomain @ ''.'' @ domain,
                                            Type := recordType\<rparr>)]) of
                 (err, d', calls') \<Rightarrow>
                   (if err \<noteq> None then Inl (ErrImporting (ID r)) else Inr [d'], d', calls'))
            \<and> d_domain (resource (importRecord env d calls)) = domain)"
proof (intro conjI impI)
  assume "length records \<noteq> 1"
  with assms show "result (importRecord env d calls) = Inl (ErrExpectedOneRecord (length records))"
    and "resource (importRecord env d calls) = d"
    by (simp_all add: importRecord_def result_def resource_def Let_def Sprintf_s_dot_s_def)
next
  assume one: "records = [r] \<and> SetErr env (d\<lparr>d_Id := ID r\<rparr>) ''domain'' = None"
  with assms show run: "importRecord env d calls =
              (case resourceCloudFlareRecordRead env (d\<lparr>d_Id := ID r, d_domain := domain\<rparr>)
                      (calls @ [Call_ZoneIDByName domain,
                         Call_DNSRecords zoneID
                           (DNSRecord_zero\<lparr>Name := subdomain @ ''.'' @ domain,
                                            Type := recordType\<rparr>)]) of
                 (err, d', calls') \<Rightarrow>
                   (if err \<noteq> None then Inl (ErrImporting (ID r)) else Inr [d'], d', calls'))"
    by (simp add: importRecord_def Let_def Sprintf_s_dot_s_def cong: if_cong)
  have "d_domain (resource (resourceCloudFlareRecordRead env (d\<lparr>d_Id := ID r, d_domain := domain\<rparr>)
                      (calls @ [Call_ZoneIDByName domain,
                         Call_DNSRecords zoneID
                           (DNSRecord_zero\<lparr>Name := subdomain @ ''.'' @ domain,
                                            Type := recordType\<rparr>)]))) = domain"
    by (simp add: Read_domain)
  then show "d_domain (resource (importRecord env d calls)) = domain"
    unfolding run by (simp add: resource_def case_prod_unfold)
qed

theorem importRecord_matches_witness:
  "Split ''mail|example.com|A'' CHR ''|'' = [''mail'', ''example.com'', ''A'']
   \<and> ZoneIDByName example_env [] ''example.com'' = Inr ''zone1''
   \<and> DNSRecords example_env [Call_ZoneIDByName ''example.com''] ''zone1''
         (DNSRecord_zero\<lparr>Name := ''mail.example.com'', Type := ''A''\<rparr>) = Inr []
   \<and> length ([] :: DNSRecord list) \<noteq> 1
   \<and> result (importRecord example_env (import_data ''mail|example.com|A'') [])
       = Inl (ErrExpectedOneRecord 0)
   \<and> resource (importRecord example_env (import_data ''mail|example.com|A'') [])
       = import_data ''mail|example.com|A''
   \<and> Split ''rr|example.com|A'' CHR ''|'' = [''rr'', ''example.com'', ''A'']
   \<and> DNSRecords example_env [Call_ZoneIDByName ''example.com''] ''zone1''
         (DNSRecord_zero\<lparr>Name := ''rr.example.com'', Type := ''A''\<rparr>)
       = Inr [example_records ! 2, example_records ! 3]
   \<and> length [example_records ! 2, example_records ! 3] \<noteq> 1
   \<and> result (importRecord example_env (import_data ''rr|example.com|A'') [])
       = Inl (ErrExpectedOneRecord 2)
   \<and> resource (importRecord example_env (import_data ''rr|example.com|A'') [])
       = import_data ''rr|example.com|A''
   \<and> Split ''www|example.com|A'' CHR ''|'' = [''www'', ''example.com'', ''A'']
   \<and> DNSRecords example_env [Call_ZoneIDByName ''example.com''] ''zone1''
         (DNSRecord_zero\<lparr>Name := ''www.example.com'', Type := ''A''\<rparr>) = Inr [example_record]
   \<and> SetErr example_env (import_data ''www|example.com|A''\<lparr>d_Id := ''rec1''\<rparr>) ''domain'' = None
   \<and> importRecord example_env (import_data ''www|example.com|A'') []
       = (Inr [example_data\<lparr>d_Id := ''rec1'', d_zone_id := ''zone1''\<rparr>],
          example_data\<lparr>d_Id := ''rec1'', d_zone_id := ''zone1''\<rparr>,
          [Call_ZoneIDByName ''example.com'',
           Call_DNSRecords ''zone1'' (DNSRecord_zero\<lparr>Name := ''www.example.com'', Type := ''A''\<rparr>),
           Call_ZoneIDByName ''example.com'',
           Call_DNSRecord ''zone1'' ''rec1''])"
  using importRecord_matches [of "import_data ''mail|example.com|A''" "''mail''" "''example.com''"
      "''A''" example_env "[]" "''zone1''" "[]"]
    importRecord_matches [of "import_data ''rr|example.com|A''" "''rr''" "''example.com''"
      "''A''" example_env "[]" "''zone1''" "[example_records ! 2, example_records ! 3]"]
    importRecord_matches [of "import_data ''www|example.com|A''" "''www''" "''example.com''"
      "''A''" example_env "[]" "''zone1''" "[example_record]" example_record]
  by (simp add: run_defs)

text \<open>
  C8, at the identifier \<^verbatim>\<open>|example.com|A\<close>, whose subdomain is empty. The name of that
  record is \<^verbatim>\<open>example.com\<close>, which is what Create sends for it and what the zone holds; Import
  asks for \<^verbatim>\<open>.example.com\<close>, finds nothing and fails.
\<close>

theorem importRecord_empty_subdomain:
  "Split ''|example.com|A'' CHR ''|'' = [[], ''example.com'', ''A'']
   \<and> recordName [] ''example.com'' = ''example.com''
   \<and> DNSRecords example_env [Call_ZoneIDByName ''example.com''] ''zone1''
         (DNSRecord_zero\<lparr>Name := ''example.com'', Type := ''A''\<rparr>) = Inr [example_records ! 1]
   \<and> importRecord example_env (import_data ''|example.com|A'') []
       = (Inl (ErrExpectedOneRecord 0), import_data ''|example.com|A'',
          [Call_ZoneIDByName ''example.com'',
           Call_DNSRecords ''zone1'' (DNSRecord_zero\<lparr>Name := ''.example.com'', Type := ''A''\<rparr>)])"
  by (simp add: run_defs)

end
